theory Spec2Isabelle
  imports Main "HOL-Library.AList"
begin

section \<open>The recomputation chain of the hardware-store application\<close>

text \<open>
  The development embeds the save overrides of \<^verbatim>\<open>models.py\<close>, the post-save hook of
  \<^verbatim>\<open>signals.py\<close>, the quantity check of \<^verbatim>\<open>forms.py\<close> and the sale views of
  \<^verbatim>\<open>views.py\<close>.  Model instances are records; the persisted tables are association
  lists from primary key to row; every operation takes the state and returns the
  updated one together with its result or the exception it raised.

  Modelling decisions:
  \<^item> Decimal amounts with two places (\<^verbatim>\<open>DecimalField(decimal_places=2)\<close>) are integers
    counting cents, so products and sums are exact as they are for \<^verbatim>\<open>Decimal\<close>.
  \<^item> Only the columns the chain reads or writes are kept (names, descriptions, images and
    the automatic timestamps are left out).
  \<^item> A related object held by an instance (\<^verbatim>\<open>self.producto\<close>, \<^verbatim>\<open>self.venta\<close>) is the
    in-memory object, a record of its own, which may differ from the stored row; a row
    keeps the key only.  Python mutates such objects in place, so each operation returns
    the instance with the objects as it left them.
  \<^item> The storage layer enforces what the field declarations say about \<^verbatim>\<open>NULL\<close> and
    \<^verbatim>\<open>unique\<close>.  Foreign-key existence and the range checks some backends attach to
    \<^verbatim>\<open>PositiveIntegerField\<close> are not modelled.
  \<^item> \<^verbatim>\<open>random.randint\<close> is a list of draws still to come, kept in the state; a loop that
    has used all of them has not returned.
\<close>

subsection \<open>Exceptions and outcomes\<close>

datatype error =
    ValueError | TypeError | AttributeError
  | IntegrityError | DatabaseError | DoesNotExist
  | Http404 | ValidationError

subsection \<open>Tables\<close>

type_synonym 'r table = "(nat \<times> 'r) list"

definition tbl_get :: "'r table \<Rightarrow> nat \<Rightarrow> 'r option" where
  "tbl_get t k = map_of t k"

text \<open>The key an \<^verbatim>\<open>INSERT\<close> without primary key receives: above every key in use.\<close>

definition tbl_fresh :: "'r table \<Rightarrow> nat" where
  "tbl_fresh t = Suc (fold max (map fst t) 0)"

subsection \<open>Instances and rows\<close>

record producto =
  p_pk :: "nat option"
  precio :: int
  cantidad_stock :: int

record venta =
  v_pk :: "nat option"
  fecha :: nat
  numero_comprobante :: string
  cliente :: "nat option"
  medio_de_pago :: "nat option"
  importe_total :: int
  anulada :: bool

record detalle_venta =
  dv_pk :: "nat option"
  dv_venta :: "venta option"
  dv_producto :: "producto option"
  dv_cantidad :: "int option"
  precio_unitario :: int
  importe :: int
  hora :: nat

record detalle_venta_row =
  dvr_venta_id :: "nat option"
  dvr_producto_id :: "nat option"
  dvr_cantidad :: "int option"
  dvr_precio_unitario :: int
  dvr_importe :: int
  dvr_hora :: nat

record movimiento_stock =
  ms_pk :: "nat option"
  ms_producto :: "producto option"
  tipo :: string
  ms_cantidad :: "int option"
  comprobante :: "string option"

record movimiento_stock_row =
  msr_producto_id :: nat
  msr_tipo :: string
  msr_cantidad :: int
  msr_comprobante :: "string option"

record state =
  productos :: "producto table"
  ventas :: "venta table"
  detalles :: "detalle_venta_row table"
  movimientos :: "movimiento_stock_row table"
  draws :: "nat list"

text \<open>
  An operation returns a value and the new state, raises an exception leaving the state
  as written so far, or does not return.
\<close>

datatype 'a outcome = Return 'a state | Raise error state | NoReturn

definition then_do :: "'a outcome \<Rightarrow> ('a \<Rightarrow> state \<Rightarrow> 'b outcome) \<Rightarrow> 'b outcome" where
  "then_do m f = (case m of Return x s \<Rightarrow> f x s | Raise e s \<Rightarrow> Raise e s | NoReturn \<Rightarrow> NoReturn)"

text \<open>
  \<^verbatim>\<open>transaction.atomic\<close>: an exception leaving the block rolls the tables back to what
  they were on entry (the draws already consumed stay consumed).
\<close>

definition atomic :: "(state \<Rightarrow> 'a outcome) \<Rightarrow> state \<Rightarrow> 'a outcome" where
  "atomic f s = (case f s of
       Raise e s' \<Rightarrow> Raise e (s\<lparr>draws := draws s'\<rparr>)
     | r \<Rightarrow> r)"

subsection \<open>Producto\<close>

text \<open>
  \<^verbatim>\<open>Producto\<close> has no \<^verbatim>\<open>save\<close> of its own and no hook listens to it: saving writes the
  instance's columns to its row, inserting the row when the instance has no key or the
  key has no row.
\<close>

definition Producto_save :: "producto \<Rightarrow> state \<Rightarrow> producto \<times> state" where
  "Producto_save p s =
     (let k = (case p_pk p of None \<Rightarrow> tbl_fresh (productos s) | Some k \<Rightarrow> k);
          p' = p\<lparr>p_pk := Some k\<rparr>
      in (p', s\<lparr>productos := AList.update k p' (productos s)\<rparr>))"

subsection \<open>MovimientoStock\<close>

text \<open>
  \<^verbatim>\<open>super().save()\<close> of a stock movement: the related product must have been saved, and
  the product and quantity columns do not accept \<^verbatim>\<open>NULL\<close>.
\<close>

definition MovimientoStock_super_save :: "movimiento_stock \<Rightarrow> state \<Rightarrow> movimiento_stock outcome" where
  "MovimientoStock_super_save m s =
     (case ms_producto m of
        None \<Rightarrow> Raise IntegrityError s
      | Some p \<Rightarrow>
         (case p_pk p of
            None \<Rightarrow> Raise ValueError s
          | Some pid \<Rightarrow>
             (case ms_cantidad m of
                None \<Rightarrow> Raise IntegrityError s
              | Some q \<Rightarrow>
                 (let k = (case ms_pk m of None \<Rightarrow> tbl_fresh (movimientos s) | Some k \<Rightarrow> k);
                      row = \<lparr>msr_producto_id = pid, msr_tipo = tipo m, msr_cantidad = q,
                             msr_comprobante = comprobante m\<rparr>
                  in Return (m\<lparr>ms_pk := Some k\<rparr>)
                            (s\<lparr>movimientos := AList.update k row (movimientos s)\<rparr>)))))"

text \<open>
  \<^verbatim>\<open>MovimientoStock.save\<close>: the movement is written first; an \<^verbatim>\<open>'entrada'\<close> adds its
  quantity to the product object; the product object is saved in either case.
\<close>

definition MovimientoStock_save :: "movimiento_stock \<Rightarrow> state \<Rightarrow> movimiento_stock outcome" where
  "MovimientoStock_save m s =
     then_do (MovimientoStock_super_save m s) (\<lambda>m1 s1.
       (case (ms_producto m1, ms_cantidad m1) of
          (Some p, Some q) \<Rightarrow>
            (let p1 = (if tipo m1 = ''entrada''
                       then p\<lparr>cantidad_stock := cantidad_stock p + q\<rparr> else p);
                 (p2, s2) = Producto_save p1 s1
             in Return (m1\<lparr>ms_producto := Some p2\<rparr>) s2)
        | (None, _) \<Rightarrow> Raise AttributeError s1
        | (_, None) \<Rightarrow> Raise TypeError s1))"

text \<open>\<^verbatim>\<open>MovimientoStock.objects.create(...)\<close>: build the instance and save it.\<close>

definition MovimientoStock_create ::
  "producto option \<Rightarrow> string \<Rightarrow> int option \<Rightarrow> string option \<Rightarrow> state \<Rightarrow> movimiento_stock outcome" where
  "MovimientoStock_create p t q c s =
     MovimientoStock_save \<lparr>ms_pk = None, ms_producto = p, tipo = t, ms_cantidad = q, comprobante = c\<rparr> s"

subsection \<open>Venta\<close>

text \<open>\<^verbatim>\<open>str\<close> of a non-negative integer: its decimal digits.\<close>

definition digit_char :: "nat \<Rightarrow> char" where
  "digit_char d = ''0123456789'' ! d"

fun str_nat :: "nat \<Rightarrow> string" where
  "str_nat n = (if n < 10 then [digit_char n] else str_nat (n div 10) @ [digit_char (n mod 10)])"

declare str_nat.simps [simp del]

text \<open>\<^verbatim>\<open>Venta.objects.filter(numero_comprobante=numero).exists()\<close>\<close>

definition numero_exists :: "venta table \<Rightarrow> string \<Rightarrow> bool" where
  "numero_exists t numero = list_ex (\<lambda>(k, v). numero_comprobante v = numero) t"

text \<open>
  \<^verbatim>\<open>Venta.generar_numero_comprobante\<close>: the \<^verbatim>\<open>while True\<close> loop over the draws of
  \<^verbatim>\<open>random.randint(10**12, 10**13 - 1)\<close>.  It returns the first draw whose numeral no
  stored sale carries, with the draws left; \<open>None\<close> when every supplied draw collided.
  The bounds are positive, so a draw is a natural number.
\<close>

fun generar_loop :: "venta table \<Rightarrow> nat list \<Rightarrow> (string \<times> nat list) option" where
  "generar_loop t [] = None"
| "generar_loop t (d # ds) =
     (let numero = str_nat d
      in if \<not> numero_exists t numero then Some (numero, ds) else generar_loop t ds)"

definition Venta_generar_numero_comprobante :: "state \<Rightarrow> string outcome" where
  "Venta_generar_numero_comprobante s =
     (case generar_loop (ventas s) (draws s) of
        None \<Rightarrow> NoReturn
      | Some (numero, ds) \<Rightarrow> Return numero (s\<lparr>draws := ds\<rparr>))"

text \<open>
  The columns named in \<^verbatim>\<open>update_fields\<close> are taken from the instance, the others from
  the row.  The source passes \<^verbatim>\<open>['importe_total']\<close> only.
\<close>

definition venta_copy_fields :: "string list \<Rightarrow> venta \<Rightarrow> venta \<Rightarrow> venta" where
  "venta_copy_fields fs v row =
     row\<lparr>fecha := (if ''fecha'' \<in> set fs then fecha v else fecha row),
         numero_comprobante :=
           (if ''numero_comprobante'' \<in> set fs then numero_comprobante v else numero_comprobante row),
         cliente := (if ''cliente'' \<in> set fs then cliente v else cliente row),
         medio_de_pago := (if ''medio_de_pago'' \<in> set fs then medio_de_pago v else medio_de_pago row),
         importe_total := (if ''importe_total'' \<in> set fs then importe_total v else importe_total row),
         anulada := (if ''anulada'' \<in> set fs then anulada v else anulada row)\<rparr>"

text \<open>
  \<^verbatim>\<open>super().save(*args, **kwargs)\<close> of a sale.  With \<^verbatim>\<open>update_fields\<close> it is an
  \<^verbatim>\<open>UPDATE\<close> of those columns, which needs a key and a row; without, every column is
  written (the row inserted when missing) and the receipt number must be unique.
\<close>

definition Venta_super_save :: "venta \<Rightarrow> string list option \<Rightarrow> state \<Rightarrow> venta outcome" where
  "Venta_super_save v update_fields s =
     (case update_fields of
        Some fs \<Rightarrow>
          (if fs = [] then Return v s
           else case v_pk v of
                  None \<Rightarrow> Raise ValueError s
                | Some k \<Rightarrow>
                   (case tbl_get (ventas s) k of
                      None \<Rightarrow> Raise DatabaseError s
                    | Some row \<Rightarrow>
                        Return v (s\<lparr>ventas :=
                          AList.update k (venta_copy_fields fs v row) (ventas s)\<rparr>)))
      | None \<Rightarrow>
          (let k = (case v_pk v of None \<Rightarrow> tbl_fresh (ventas s) | Some k \<Rightarrow> k);
               v' = v\<lparr>v_pk := Some k\<rparr>
           in if list_ex (\<lambda>(j, r). j \<noteq> k \<and> numero_comprobante r = numero_comprobante v) (ventas s)
              then Raise IntegrityError s
              else Return v' (s\<lparr>ventas := AList.update k v' (ventas s)\<rparr>)))"

text \<open>
  \<^verbatim>\<open>Venta.save\<close>, under \<^verbatim>\<open>transaction.atomic\<close>: an empty receipt number is replaced by a
  generated one on the instance, then the instance is written.
\<close>

definition Venta_save :: "venta \<Rightarrow> string list option \<Rightarrow> state \<Rightarrow> venta outcome" where
  "Venta_save v update_fields =
     atomic (\<lambda>s.
       then_do (if numero_comprobante v = [] then Venta_generar_numero_comprobante s
                else Return (numero_comprobante v) s)
         (\<lambda>numero s1. Venta_super_save (v\<lparr>numero_comprobante := numero\<rparr>) update_fields s1))"

text \<open>\<^verbatim>\<open>aggregate(Sum(...))\<close> is \<^verbatim>\<open>None\<close> over no rows.\<close>

definition aggregate_sum :: "int list \<Rightarrow> int option" where
  "aggregate_sum xs = (if xs = [] then None else Some (sum_list xs))"

definition detalleventa_set :: "nat \<Rightarrow> state \<Rightarrow> (nat \<times> detalle_venta_row) list" where
  "detalleventa_set k s = filter (\<lambda>(j, r). dvr_venta_id r = Some k) (detalles s)"

text \<open>
  \<^verbatim>\<open>Venta.calcular_importe_total\<close>: \<^verbatim>\<open>... or 0\<close> turns both \<^verbatim>\<open>None\<close> and a zero sum
  into 0.  The related manager of an instance without key raises.
\<close>

definition Venta_calcular_importe_total :: "venta \<Rightarrow> state \<Rightarrow> venta outcome" where
  "Venta_calcular_importe_total v s =
     (case v_pk v of
        None \<Rightarrow> Raise ValueError s
      | Some k \<Rightarrow>
         (let total = (case aggregate_sum (map (\<lambda>(j, r). dvr_importe r) (detalleventa_set k s)) of
                         None \<Rightarrow> 0
                       | Some t \<Rightarrow> if t = 0 then 0 else t)
          in Venta_save (v\<lparr>importe_total := total\<rparr>) (Some [''importe_total'']) s))"

subsection \<open>The post-save hook of DetalleVenta\<close>

text \<open>\<^verbatim>\<open>MovimientoStock.objects.filter(comprobante=..., producto=producto).exists()\<close>\<close>

definition movimiento_exists :: "string \<Rightarrow> producto option \<Rightarrow> state \<Rightarrow> bool" where
  "movimiento_exists label producto s =
     (case producto of
        None \<Rightarrow> False
      | Some p \<Rightarrow>
         (case p_pk p of
            None \<Rightarrow> False
          | Some pid \<Rightarrow>
              list_ex (\<lambda>(j, r). msr_comprobante r = Some label \<and> msr_producto_id r = pid)
                (movimientos s)))"

definition actualizar_stock_post_venta :: "detalle_venta \<Rightarrow> bool \<Rightarrow> state \<Rightarrow> detalle_venta outcome" where
  "actualizar_stock_post_venta instance created s =
     (case dv_venta instance of
        None \<Rightarrow> Return instance s
      | Some v \<Rightarrow>
         (if created \<and> \<not> anulada v then
            (let producto = dv_producto instance;
                 cantidad_vendida = dv_cantidad instance;
                 label = ''Venta '' @ numero_comprobante v
             in then_do
                  (if \<not> movimiento_exists label producto s
                   then then_do (MovimientoStock_create producto ''salida'' cantidad_vendida (Some label) s)
                          (\<lambda>m s1. Return (ms_producto m) s1)
                   else Return producto s)
                  (\<lambda>producto1 s1.
                     case producto1 of
                       None \<Rightarrow> Raise AttributeError s1
                     | Some p \<Rightarrow>
                        (case cantidad_vendida of
                           None \<Rightarrow> Raise TypeError s1
                         | Some q \<Rightarrow>
                            (let (p2, s2) = Producto_save (p\<lparr>cantidad_stock := cantidad_stock p - q\<rparr>) s1
                             in Return (instance\<lparr>dv_producto := Some p2\<rparr>) s2))))
          else Return instance s))"

subsection \<open>DetalleVenta\<close>

definition related_pk_venta :: "venta option \<Rightarrow> nat option" where
  "related_pk_venta v = (case v of None \<Rightarrow> None | Some x \<Rightarrow> v_pk x)"

definition related_pk_producto :: "producto option \<Rightarrow> nat option" where
  "related_pk_producto p = (case p of None \<Rightarrow> None | Some x \<Rightarrow> p_pk x)"

text \<open>
  \<^verbatim>\<open>super().save(*args, **kwargs)\<close> of a sale line: a related object without key is
  refused; the row is updated when the key has one and inserted otherwise; then the
  \<^verbatim>\<open>post_save\<close> signal runs the hook, with \<^verbatim>\<open>created\<close> telling whether a row was inserted.
\<close>

definition DetalleVenta_super_save :: "detalle_venta \<Rightarrow> state \<Rightarrow> detalle_venta outcome" where
  "DetalleVenta_super_save l s =
     (if (dv_venta l \<noteq> None \<and> related_pk_venta (dv_venta l) = None)
         \<or> (dv_producto l \<noteq> None \<and> related_pk_producto (dv_producto l) = None)
      then Raise ValueError s
      else
        (let k = (case dv_pk l of None \<Rightarrow> tbl_fresh (detalles s) | Some k \<Rightarrow> k);
             created = (tbl_get (detalles s) k = None);
             row = \<lparr>dvr_venta_id = related_pk_venta (dv_venta l),
                    dvr_producto_id = related_pk_producto (dv_producto l),
                    dvr_cantidad = dv_cantidad l,
                    dvr_precio_unitario = precio_unitario l,
                    dvr_importe = importe l,
                    dvr_hora = hora l\<rparr>
         in actualizar_stock_post_venta (l\<lparr>dv_pk := Some k\<rparr>) created
              (s\<lparr>detalles := AList.update k row (detalles s)\<rparr>)))"

text \<open>
  \<^verbatim>\<open>DetalleVenta.save\<close>.  The two \<^verbatim>\<open>if\<close>s test truth values: a quantity that is
  \<^verbatim>\<open>None\<close> or 0 and a unit price that is 0 are false.
\<close>

definition DetalleVenta_save :: "detalle_venta \<Rightarrow> state \<Rightarrow> detalle_venta outcome" where
  "DetalleVenta_save l s =
     (let l1 = (case dv_producto l of
                  Some p \<Rightarrow> if dv_pk l = None then l\<lparr>precio_unitario := precio p\<rparr> else l
                | None \<Rightarrow> l);
          l2 = (case dv_cantidad l1 of
                  Some q \<Rightarrow> if q \<noteq> 0 \<and> precio_unitario l1 \<noteq> 0
                            then l1\<lparr>importe := q * precio_unitario l1\<rparr> else l1
                | None \<Rightarrow> l1)
      in then_do (DetalleVenta_super_save l2 s) (\<lambda>l3 s3.
           case dv_venta l3 of
             None \<Rightarrow> Return l3 s3
           | Some v \<Rightarrow>
               then_do (Venta_calcular_importe_total v s3)
                 (\<lambda>v' s4. Return (l3\<lparr>dv_venta := Some v'\<rparr>) s4)))"

text \<open>\<^verbatim>\<open>DetalleVenta.objects.create(venta=, producto=, cantidad=, precio_unitario=)\<close>\<close>

definition DetalleVenta_create ::
  "venta option \<Rightarrow> producto option \<Rightarrow> int option \<Rightarrow> int \<Rightarrow> nat \<Rightarrow> state \<Rightarrow> detalle_venta outcome" where
  "DetalleVenta_create v p q pu now s =
     DetalleVenta_save \<lparr>dv_pk = None, dv_venta = v, dv_producto = p, dv_cantidad = q,
                        precio_unitario = pu, importe = 0, hora = now\<rparr> s"

subsection \<open>The quantity check of the sale-line form\<close>

definition clean_cantidad :: "int option \<Rightarrow> error + int" where
  "clean_cantidad cantidad =
     (case cantidad of
        None \<Rightarrow> Inl ValidationError
      | Some q \<Rightarrow> if q \<le> 0 then Inl ValidationError else Inr q)"

subsection \<open>Views\<close>

datatype response = Redirect string | Render string

definition Producto_get_or_404 :: "nat \<Rightarrow> state \<Rightarrow> producto outcome" where
  "Producto_get_or_404 k s =
     (case tbl_get (productos s) k of
        None \<Rightarrow> Raise Http404 s
      | Some r \<Rightarrow> Return (r\<lparr>p_pk := Some k\<rparr>) s)"

definition Venta_get_or_404 :: "nat \<Rightarrow> state \<Rightarrow> venta outcome" where
  "Venta_get_or_404 k s =
     (case tbl_get (ventas s) k of
        None \<Rightarrow> Raise Http404 s
      | Some r \<Rightarrow> Return (r\<lparr>v_pk := Some k\<rparr>) s)"

text \<open>
  The loop of \<^verbatim>\<open>venta_agregar\<close> over \<^verbatim>\<open>zip(productos_ids, cantidades)\<close>.  A quantity is
  given as the value of \<^verbatim>\<open>int(cantidad)\<close>, \<open>None\<close> when \<^verbatim>\<open>int\<close> raises.  The same sale
  object is handed to every line.
\<close>

fun venta_agregar_loop :: "venta \<Rightarrow> nat \<Rightarrow> (nat \<times> int option) list \<Rightarrow> state \<Rightarrow> venta outcome" where
  "venta_agregar_loop venta now [] s = Return venta s"
| "venta_agregar_loop venta now ((producto_id, cantidad) # rest) s =
     then_do (Producto_get_or_404 producto_id s) (\<lambda>producto s1.
       case cantidad of
         None \<Rightarrow> Raise ValueError s1
       | Some q \<Rightarrow>
           then_do (DetalleVenta_create (Some venta) (Some producto) (Some q) (precio producto) now s1)
             (\<lambda>l s2. venta_agregar_loop (case dv_venta l of Some v' \<Rightarrow> v' | None \<Rightarrow> venta) now rest s2))"

definition venta_agregar ::
  "string \<Rightarrow> bool \<Rightarrow> nat option \<Rightarrow> nat option \<Rightarrow> nat \<Rightarrow> nat list \<Rightarrow> int option list
    \<Rightarrow> state \<Rightarrow> response outcome" where
  "venta_agregar method form_is_valid form_cliente form_medio_de_pago now productos_ids cantidades =
     atomic (\<lambda>s.
       if method = ''POST'' \<and> form_is_valid then
         then_do (Venta_save \<lparr>v_pk = None, fecha = now, numero_comprobante = [],
                              cliente = form_cliente, medio_de_pago = form_medio_de_pago,
                              importe_total = 0, anulada = False\<rparr> None s)
           (\<lambda>venta s1.
              then_do (venta_agregar_loop venta now (zip productos_ids cantidades) s1)
                (\<lambda>_ s2. Return (Redirect ''venta_lista'') s2))
       else Return (Render ''ventas/venta_agregar.html'') s)"

text \<open>
  The loop of \<^verbatim>\<open>venta_anular\<close> over the lines of the sale.  \<^verbatim>\<open>detalle.producto\<close> is
  read from the stored products when the line is reached.
\<close>

fun venta_anular_loop :: "(nat \<times> detalle_venta_row) list \<Rightarrow> state \<Rightarrow> unit outcome" where
  "venta_anular_loop [] s = Return () s"
| "venta_anular_loop ((j, detalle) # rest) s =
     (case dvr_producto_id detalle of
        None \<Rightarrow> Raise AttributeError s
      | Some pid \<Rightarrow>
         (case tbl_get (productos s) pid of
            None \<Rightarrow> Raise DoesNotExist s
          | Some r \<Rightarrow>
             (case dvr_cantidad detalle of
                None \<Rightarrow> Raise TypeError s
              | Some q \<Rightarrow>
                 (let producto = r\<lparr>p_pk := Some pid\<rparr>;
                      (p2, s2) = Producto_save (producto\<lparr>cantidad_stock := cantidad_stock producto + q\<rparr>) s
                  in venta_anular_loop rest s2))))"

definition venta_anular :: "string \<Rightarrow> nat \<Rightarrow> state \<Rightarrow> response outcome" where
  "venta_anular method pk s =
     then_do (Venta_get_or_404 pk s) (\<lambda>venta s0.
       if method = ''POST'' then
         then_do (Venta_save (venta\<lparr>anulada := True\<rparr>) None s0) (\<lambda>venta1 s1.
           then_do (venta_anular_loop (detalleventa_set pk s1) s1)
             (\<lambda>_ s2. Return (Redirect ''venta_lista'') s2))
       else Return (Render ''ventas/venta_anular.html'') s0)"

text \<open>
  \<^verbatim>\<open>productos_confirm_delete\<close>: \<^verbatim>\<open>producto.delete()\<close> removes the product and, through
  \<^verbatim>\<open>on_delete=models.CASCADE\<close>, the sale lines and stock movements that reference it.
  No hook listens to deletions.
\<close>

definition productos_confirm_delete :: "string \<Rightarrow> nat \<Rightarrow> state \<Rightarrow> response outcome" where
  "productos_confirm_delete method pk s =
     then_do (Producto_get_or_404 pk s) (\<lambda>producto s0.
       if method = ''POST'' then
         Return (Redirect ''productos_list'')
           (s0\<lparr>detalles := filter (\<lambda>(j, r). dvr_producto_id r \<noteq> Some pk) (detalles s0),
               movimientos := filter (\<lambda>(j, r). msr_producto_id r \<noteq> pk) (movimientos s0),
               productos := AList.delete pk (productos s0)\<rparr>)
       else Return (Render ''productos/productos_confirm_delete.html'') s0)"

subsection \<open>Quantities the properties speak about\<close>

text \<open>The sum of the subtotals of the lines a sale has at the moment.\<close>

definition suma_importes :: "nat \<Rightarrow> state \<Rightarrow> int" where
  "suma_importes k s = sum_list (map (\<lambda>(j, r). dvr_importe r) (detalleventa_set k s))"

text \<open>The quantity the given lines hold of one product.\<close>

definition cantidad_en_lineas :: "(nat \<times> detalle_venta_row) list \<Rightarrow> nat \<Rightarrow> int" where
  "cantidad_en_lineas rows pid =
     sum_list (map (\<lambda>(j, r). case dvr_cantidad r of Some q \<Rightarrow> q | None \<Rightarrow> 0)
                   (filter (\<lambda>(j, r). dvr_producto_id r = Some pid) rows))"


subsection \<open>The scenario of the specification\<close>

text \<open>Product "Martillo", price 100.00, stock 10, in a shop with nothing else yet.\<close>

definition martillo :: producto where
  "martillo = \<lparr>p_pk = Some 1, precio = 10000, cantidad_stock = 10\<rparr>"

definition tienda :: state where
  "tienda = \<lparr>productos = [(1, martillo)], ventas = [], detalles = [], movimientos = [],
             draws = [1234567890123]\<rparr>"

text \<open>
  The sale of the scenario once stored, its line for three hammers before the first save,
  and the rows and the state the scenario expects after the line has been saved.
\<close>

definition venta1 :: venta where
  "venta1 = \<lparr>v_pk = Some 1, fecha = 7, numero_comprobante = ''1234567890123'', cliente = None,
             medio_de_pago = None, importe_total = 0, anulada = False\<rparr>"

definition linea1 :: detalle_venta where
  "linea1 = \<lparr>dv_pk = None, dv_venta = Some venta1, dv_producto = Some martillo,
             dv_cantidad = Some 3, precio_unitario = 0, importe = 0, hora = 7\<rparr>"

definition fila1 :: detalle_venta_row where
  "fila1 = \<lparr>dvr_venta_id = Some 1, dvr_producto_id = Some 1, dvr_cantidad = Some 3,
            dvr_precio_unitario = 10000, dvr_importe = 30000, dvr_hora = 7\<rparr>"

definition salida1 :: movimiento_stock_row where
  "salida1 = \<lparr>msr_producto_id = 1, msr_tipo = ''salida'', msr_cantidad = 3,
              msr_comprobante = Some ''Venta 1234567890123''\<rparr>"

definition tienda_con_venta :: state where
  "tienda_con_venta = tienda\<lparr>ventas := [(1, venta1)], draws := []\<rparr>"

definition linea1_guardada :: detalle_venta where
  "linea1_guardada =
     linea1\<lparr>dv_pk := Some 1, dv_venta := Some (venta1\<lparr>importe_total := 30000\<rparr>),
            dv_producto := Some (martillo\<lparr>cantidad_stock := 7\<rparr>),
            precio_unitario := 10000, importe := 30000\<rparr>"

definition tienda_vendida :: state where
  "tienda_vendida =
     \<lparr>productos = [(1, martillo\<lparr>cantidad_stock := 7\<rparr>)],
      ventas = [(1, venta1\<lparr>importe_total := 30000\<rparr>)],
      detalles = [(1, fila1)], movimientos = [(1, salida1)], draws = []\<rparr>"

text \<open>The hammer repriced at 150.00 after the sale, and the shop once it has been saved.\<close>

definition martillo_caro :: producto where
  "martillo_caro = martillo\<lparr>precio := 15000, cantidad_stock := 7\<rparr>"

definition tienda_recotizada :: state where
  "tienda_recotizada = tienda_vendida\<lparr>productos := [(1, martillo_caro)]\<rparr>"

text \<open>
  A new sale about to be saved in the shop after the first sale, where the first of the
  two draws to come repeats the receipt number already in use.
\<close>

definition venta_nueva :: venta where
  "venta_nueva = \<lparr>v_pk = None, fecha = 8, numero_comprobante = [], cliente = None,
                  medio_de_pago = None, importe_total = 0, anulada = False\<rparr>"

definition tienda_sorteos :: state where
  "tienda_sorteos = tienda_vendida\<lparr>draws := [1234567890123, 5555555555555]\<rparr>"

section \<open>Properties\<close>

lemma tbl_get_update: "tbl_get (AList.update k r t) k' = (if k' = k then Some r else tbl_get t k')"
  by (simp add: tbl_get_def update_conv')

subsection \<open>What each operation returns\<close>

lemma then_do_Return:
  "then_do m f = Return y t \<longleftrightarrow> (\<exists>x s. m = Return x s \<and> f x s = Return y t)"
  by (cases m) (simp_all add: then_do_def)

lemma atomic_Return: "atomic f s = Return y t \<longleftrightarrow> f s = Return y t"
  by (cases "f s") (simp_all add: atomic_def)

lemma p_pk_update_same: "p_pk p = Some k \<Longrightarrow> p\<lparr>p_pk := Some k\<rparr> = p"
  by (cases p) simp

lemma v_pk_update_same: "v_pk v = Some k \<Longrightarrow> v\<lparr>v_pk := Some k\<rparr> = v"
  by (cases v) simp

lemma Producto_save_saved:
  "p_pk p = Some k \<Longrightarrow> Producto_save p s = (p, s\<lparr>productos := AList.update k p (productos s)\<rparr>)"
  by (simp add: Producto_save_def p_pk_update_same)

lemma MovimientoStock_save_ok:
  assumes "ms_producto m = Some p" and "p_pk p = Some pid" and "ms_cantidad m = Some q"
  shows "MovimientoStock_save m s =
           Return (m\<lparr>ms_pk := Some (case ms_pk m of None \<Rightarrow> tbl_fresh (movimientos s) | Some k \<Rightarrow> k),
                      ms_producto := Some (if tipo m = ''entrada''
                                           then p\<lparr>cantidad_stock := cantidad_stock p + q\<rparr> else p)\<rparr>)
                  (s\<lparr>movimientos :=
                       AList.update (case ms_pk m of None \<Rightarrow> tbl_fresh (movimientos s) | Some k \<Rightarrow> k)
                         \<lparr>msr_producto_id = pid, msr_tipo = tipo m, msr_cantidad = q,
                           msr_comprobante = comprobante m\<rparr> (movimientos s),
                      productos :=
                       AList.update pid (if tipo m = ''entrada''
                                         then p\<lparr>cantidad_stock := cantidad_stock p + q\<rparr> else p)
                         (productos s)\<rparr>)"
  using assms
  by (simp add: MovimientoStock_save_def MovimientoStock_super_save_def then_do_def
      Producto_save_saved Let_def)

lemma actualizar_stock_post_venta_inactive:
  "dv_venta i = None \<or> \<not> c \<or> (\<exists>v. dv_venta i = Some v \<and> anulada v) \<Longrightarrow>
     actualizar_stock_post_venta i c s = Return i s"
  by (auto simp: actualizar_stock_post_venta_def split: option.splits)

lemma actualizar_stock_post_venta_active:
  assumes "dv_venta i = Some v" and "\<not> anulada v"
    and "dv_producto i = Some p" and "p_pk p = Some pid" and "dv_cantidad i = Some q"
  shows "actualizar_stock_post_venta i True s =
           Return (i\<lparr>dv_producto := Some (p\<lparr>cantidad_stock := cantidad_stock p - q\<rparr>)\<rparr>)
                  (s\<lparr>movimientos :=
                        (if movimiento_exists (''Venta '' @ numero_comprobante v) (Some p) s
                         then movimientos s
                         else AList.update (tbl_fresh (movimientos s))
                                \<lparr>msr_producto_id = pid, msr_tipo = ''salida'', msr_cantidad = q,
                                  msr_comprobante = Some (''Venta '' @ numero_comprobante v)\<rparr>
                                (movimientos s)),
                      productos := AList.update pid (p\<lparr>cantidad_stock := cantidad_stock p - q\<rparr>) (productos s)\<rparr>)"
  using assms
  by (simp add: actualizar_stock_post_venta_def MovimientoStock_create_def MovimientoStock_save_ok
      then_do_def Producto_save_saved Let_def)

lemma actualizar_stock_post_venta_Return:
  assumes "actualizar_stock_post_venta i c s = Return i' s'"
  shows "(i' = i \<and> s' = s) \<or>
         (\<exists>v p pid q. c \<and> dv_venta i = Some v \<and> \<not> anulada v \<and> dv_producto i = Some p
            \<and> p_pk p = Some pid \<and> dv_cantidad i = Some q)"
proof (cases "dv_venta i = None \<or> \<not> c \<or> (\<exists>v. dv_venta i = Some v \<and> anulada v)")
  case True
  from actualizar_stock_post_venta_inactive [OF True] assms show ?thesis by simp
next
  case False
  then obtain v where v: "dv_venta i = Some v" "\<not> anulada v" and c: c by auto
  show ?thesis
  proof (cases "dv_producto i")
    case None
    with assms v c show ?thesis
      by (simp add: actualizar_stock_post_venta_def MovimientoStock_create_def MovimientoStock_save_def
          MovimientoStock_super_save_def movimiento_exists_def then_do_def)
  next
    case (Some p)
    show ?thesis
    proof (cases "p_pk p")
      case None
      with assms v c Some show ?thesis
        by (simp add: actualizar_stock_post_venta_def MovimientoStock_create_def MovimientoStock_save_def
            MovimientoStock_super_save_def movimiento_exists_def then_do_def)
    next
      case pid: (Some pid)
      show ?thesis
      proof (cases "dv_cantidad i")
        case None
        with assms v c Some pid show ?thesis
          by (cases "movimiento_exists (''Venta '' @ numero_comprobante v) (Some p) s")
            (simp_all add: actualizar_stock_post_venta_def MovimientoStock_create_def
              MovimientoStock_save_def MovimientoStock_super_save_def then_do_def Let_def)
      next
        case q: (Some q)
        with v c Some pid show ?thesis by simp
      qed
    qed
  qed
qed

lemma actualizar_stock_post_venta_frame:
  assumes "actualizar_stock_post_venta i c s = Return i' s'"
  shows "ventas s' = ventas s \<and> detalles s' = detalles s \<and> draws s' = draws s
       \<and> dv_pk i' = dv_pk i \<and> dv_venta i' = dv_venta i \<and> dv_cantidad i' = dv_cantidad i
       \<and> precio_unitario i' = precio_unitario i \<and> importe i' = importe i \<and> hora i' = hora i"
  using actualizar_stock_post_venta_Return [OF assms]
proof
  assume "i' = i \<and> s' = s"
  then show ?thesis by simp
next
  assume "\<exists>v p pid q. c \<and> dv_venta i = Some v \<and> \<not> anulada v \<and> dv_producto i = Some p
            \<and> p_pk p = Some pid \<and> dv_cantidad i = Some q"
  then obtain v p pid q where h: "c" "dv_venta i = Some v" "\<not> anulada v" "dv_producto i = Some p"
            "p_pk p = Some pid" "dv_cantidad i = Some q" by blast
  from assms h(1) actualizar_stock_post_venta_active [OF h(2-6), of s]
  show ?thesis by auto
qed

lemma aggregate_sum_or_0:
  "(case aggregate_sum xs of None \<Rightarrow> 0 | Some t \<Rightarrow> if t = 0 then 0 else t) = sum_list xs"
  by (simp add: aggregate_sum_def)

lemma Venta_save_update_fields_Return:
  assumes "Venta_save v (Some [f]) s = Return v' s'"
  shows "\<exists>k row. v_pk v = Some k \<and> tbl_get (ventas s) k = Some row
           \<and> ventas s' = AList.update k (venta_copy_fields [f] v' row) (ventas s)
           \<and> productos s' = productos s \<and> detalles s' = detalles s \<and> movimientos s' = movimientos s
           \<and> v' = v\<lparr>numero_comprobante := numero_comprobante v'\<rparr>
           \<and> (numero_comprobante v \<noteq> [] \<longrightarrow> v' = v \<and> draws s' = draws s)"
proof -
  from assms obtain numero s1 where
    gen: "(if numero_comprobante v = [] then Venta_generar_numero_comprobante s
           else Return (numero_comprobante v) s) = Return numero s1"
    and sup: "Venta_super_save (v\<lparr>numero_comprobante := numero\<rparr>) (Some [f]) s1 = Return v' s'"
    by (auto simp: Venta_save_def atomic_Return then_do_Return)
  from gen have s1: "productos s1 = productos s \<and> ventas s1 = ventas s \<and> detalles s1 = detalles s
      \<and> movimientos s1 = movimientos s \<and> (numero_comprobante v \<noteq> [] \<longrightarrow> numero = numero_comprobante v \<and> s1 = s)"
    by (auto simp: Venta_generar_numero_comprobante_def split: if_splits option.splits)
  from sup obtain k row where "v_pk v = Some k" "tbl_get (ventas s1) k = Some row"
      "v' = v\<lparr>numero_comprobante := numero\<rparr>"
      "s' = s1\<lparr>ventas := AList.update k (venta_copy_fields [f] v' row) (ventas s1)\<rparr>"
    by (auto simp: Venta_super_save_def split: option.splits)
  with s1 show ?thesis by auto
qed

lemma Venta_calcular_importe_total_Return:
  assumes "Venta_calcular_importe_total v s = Return v' s'"
  shows "\<exists>k row. v_pk v = Some k \<and> tbl_get (ventas s) k = Some row
           \<and> ventas s' = AList.update k (row\<lparr>importe_total := suma_importes k s\<rparr>) (ventas s)
           \<and> productos s' = productos s \<and> detalles s' = detalles s \<and> movimientos s' = movimientos s
           \<and> v' = v\<lparr>importe_total := suma_importes k s, numero_comprobante := numero_comprobante v'\<rparr>
           \<and> (numero_comprobante v \<noteq> [] \<longrightarrow> numero_comprobante v' = numero_comprobante v \<and> draws s' = draws s)"
proof (cases "v_pk v")
  case None
  with assms show ?thesis by (simp add: Venta_calcular_importe_total_def)
next
  case (Some k)
  with assms have "Venta_save (v\<lparr>importe_total := suma_importes k s\<rparr>) (Some [''importe_total'']) s = Return v' s'"
    by (simp add: Venta_calcular_importe_total_def aggregate_sum_or_0 suma_importes_def)
  from Venta_save_update_fields_Return [OF this] Some obtain row where
    row: "tbl_get (ventas s) k = Some row"
    and vs: "ventas s' = AList.update k (venta_copy_fields [''importe_total''] v' row) (ventas s)"
    and fr: "productos s' = productos s \<and> detalles s' = detalles s \<and> movimientos s' = movimientos s"
    and v': "v' = v\<lparr>importe_total := suma_importes k s, numero_comprobante := numero_comprobante v'\<rparr>"
    and nn: "numero_comprobante v \<noteq> [] \<longrightarrow> v' = v\<lparr>importe_total := suma_importes k s\<rparr> \<and> draws s' = draws s"
    by auto
  have "importe_total v' = suma_importes k s"
    by (subst v') simp
  with row vs fr v' nn Some show ?thesis
    by (auto simp: venta_copy_fields_def)
qed

lemma Venta_calcular_importe_total_ok:
  assumes "v_pk v = Some k" and "tbl_get (ventas s) k = Some row" and "numero_comprobante v \<noteq> []"
  shows "Venta_calcular_importe_total v s =
           Return (v\<lparr>importe_total := suma_importes k s\<rparr>)
                  (s\<lparr>ventas := AList.update k (row\<lparr>importe_total := suma_importes k s\<rparr>) (ventas s)\<rparr>)"
  using assms
  by (simp add: Venta_calcular_importe_total_def aggregate_sum_or_0 suma_importes_def Venta_save_def
      atomic_def then_do_def Venta_super_save_def venta_copy_fields_def Let_def)


lemma DetalleVenta_super_save_Return:
  assumes "DetalleVenta_super_save l s = Return l' s'"
  shows "dv_pk l' = Some (case dv_pk l of None \<Rightarrow> tbl_fresh (detalles s) | Some k \<Rightarrow> k)
       \<and> detalles s' =
           AList.update (case dv_pk l of None \<Rightarrow> tbl_fresh (detalles s) | Some k \<Rightarrow> k)
             \<lparr>dvr_venta_id = related_pk_venta (dv_venta l),
               dvr_producto_id = related_pk_producto (dv_producto l),
               dvr_cantidad = dv_cantidad l, dvr_precio_unitario = precio_unitario l,
               dvr_importe = importe l, dvr_hora = hora l\<rparr> (detalles s)
       \<and> ventas s' = ventas s \<and> draws s' = draws s
       \<and> dv_venta l' = dv_venta l \<and> dv_cantidad l' = dv_cantidad l
       \<and> precio_unitario l' = precio_unitario l \<and> importe l' = importe l \<and> hora l' = hora l
       \<and> (dv_venta l \<noteq> None \<longrightarrow> related_pk_venta (dv_venta l) \<noteq> None)"
proof -
  let ?k = "case dv_pk l of None \<Rightarrow> tbl_fresh (detalles s) | Some k \<Rightarrow> k"
  let ?row = "\<lparr>dvr_venta_id = related_pk_venta (dv_venta l),
               dvr_producto_id = related_pk_producto (dv_producto l),
               dvr_cantidad = dv_cantidad l, dvr_precio_unitario = precio_unitario l,
               dvr_importe = importe l, dvr_hora = hora l\<rparr>"
  from assms have ok: "dv_venta l \<noteq> None \<longrightarrow> related_pk_venta (dv_venta l) \<noteq> None"
    and hook: "actualizar_stock_post_venta (l\<lparr>dv_pk := Some ?k\<rparr>) (tbl_get (detalles s) ?k = None)
            (s\<lparr>detalles := AList.update ?k ?row (detalles s)\<rparr>) = Return l' s'"
    by (auto simp: DetalleVenta_super_save_def Let_def split: if_splits)
  from actualizar_stock_post_venta_frame [OF hook] ok show ?thesis by simp
qed

lemma DetalleVenta_save_Return:
  assumes "DetalleVenta_save l s = Return l' s'"
  defines "k \<equiv> (case dv_pk l of None \<Rightarrow> tbl_fresh (detalles s) | Some k \<Rightarrow> k)"
  defines "pu \<equiv> (case dv_producto l of
                    Some p \<Rightarrow> if dv_pk l = None then precio p else precio_unitario l
                  | None \<Rightarrow> precio_unitario l)"
  defines "imp \<equiv> (case dv_cantidad l of
                    Some q \<Rightarrow> if q \<noteq> 0 \<and> pu \<noteq> 0 then q * pu else importe l
                  | None \<Rightarrow> importe l)"
  shows "dv_pk l' = Some k \<and> precio_unitario l' = pu \<and> importe l' = imp
       \<and> dv_cantidad l' = dv_cantidad l
       \<and> detalles s' =
           AList.update k
             \<lparr>dvr_venta_id = related_pk_venta (dv_venta l),
               dvr_producto_id = related_pk_producto (dv_producto l),
               dvr_cantidad = dv_cantidad l, dvr_precio_unitario = pu,
               dvr_importe = imp, dvr_hora = hora l\<rparr> (detalles s)
       \<and> (case dv_venta l of
            None \<Rightarrow> ventas s' = ventas s
          | Some v \<Rightarrow> \<exists>vk row. v_pk v = Some vk \<and> tbl_get (ventas s) vk = Some row
                \<and> ventas s' = AList.update vk (row\<lparr>importe_total := suma_importes vk s'\<rparr>) (ventas s))"
proof -
  define l1 where "l1 = (case dv_producto l of
                  Some p \<Rightarrow> if dv_pk l = None then l\<lparr>precio_unitario := precio p\<rparr> else l
                | None \<Rightarrow> l)"
  define l2 where "l2 = (case dv_cantidad l1 of
                  Some q \<Rightarrow> if q \<noteq> 0 \<and> precio_unitario l1 \<noteq> 0
                            then l1\<lparr>importe := q * precio_unitario l1\<rparr> else l1
                | None \<Rightarrow> l1)"
  have l1: "precio_unitario l1 = pu \<and> dv_pk l1 = dv_pk l \<and> dv_venta l1 = dv_venta l
      \<and> dv_producto l1 = dv_producto l \<and> dv_cantidad l1 = dv_cantidad l \<and> importe l1 = importe l
      \<and> hora l1 = hora l"
    by (auto simp add: l1_def pu_def split: option.splits)
  have l2: "precio_unitario l2 = pu \<and> dv_pk l2 = dv_pk l \<and> dv_venta l2 = dv_venta l
      \<and> dv_producto l2 = dv_producto l \<and> dv_cantidad l2 = dv_cantidad l \<and> importe l2 = imp
      \<and> hora l2 = hora l"
    using l1 by (auto simp add: l2_def imp_def split: option.splits)
  have "DetalleVenta_save l s =
          then_do (DetalleVenta_super_save l2 s) (\<lambda>l3 s3.
            case dv_venta l3 of
              None \<Rightarrow> Return l3 s3
            | Some v \<Rightarrow>
                then_do (Venta_calcular_importe_total v s3)
                  (\<lambda>v' s4. Return (l3\<lparr>dv_venta := Some v'\<rparr>) s4))"
    unfolding DetalleVenta_save_def l2_def l1_def Let_def by (rule refl)
  with assms(1) obtain l3 s3 where
    sup: "DetalleVenta_super_save l2 s = Return l3 s3"
    and rest: "(case dv_venta l3 of
             None \<Rightarrow> Return l3 s3
           | Some v \<Rightarrow>
               then_do (Venta_calcular_importe_total v s3)
                 (\<lambda>v' s4. Return (l3\<lparr>dv_venta := Some v'\<rparr>) s4)) = Return l' s'"
    by (auto simp: then_do_Return)
  note s3 = DetalleVenta_super_save_Return [OF sup]
  show ?thesis
  proof (cases "dv_venta l")
    case None
    with s3 l2 rest show ?thesis by (auto simp: k_def)
  next
    case (Some v)
    with s3 l2 rest obtain v' where
      calc: "Venta_calcular_importe_total v s3 = Return v' s'" and l': "l' = l3\<lparr>dv_venta := Some v'\<rparr>"
      by (auto simp: then_do_Return)
    from Venta_calcular_importe_total_Return [OF calc] obtain vk row where
      vk: "v_pk v = Some vk" "tbl_get (ventas s3) vk = Some row"
        "ventas s' = AList.update vk (row\<lparr>importe_total := suma_importes vk s3\<rparr>) (ventas s3)"
        "detalles s' = detalles s3"
      by blast
    have "suma_importes vk s' = suma_importes vk s3"
      using vk(4) by (simp add: suma_importes_def detalleventa_set_def)
    with vk s3 l2 l' Some show ?thesis by (auto simp: k_def)
  qed
qed









lemma Venta_save_full_ok:
  assumes "numero_comprobante v \<noteq> []" and "v_pk v = Some k"
    and "\<not> list_ex (\<lambda>(j, r). j \<noteq> k \<and> numero_comprobante r = numero_comprobante v) (ventas s)"
  shows "Venta_save v None s = Return v (s\<lparr>ventas := AList.update k v (ventas s)\<rparr>)"
  using assms
  by (simp add: Venta_save_def atomic_def then_do_def Venta_super_save_def v_pk_update_same)

lemma Venta_save_full_Return:
  assumes "Venta_save v None s = Return v' s'" and "numero_comprobante v \<noteq> []" and "v_pk v = Some k"
  shows "v' = v \<and> s' = s\<lparr>ventas := AList.update k v (ventas s)\<rparr>"
  using assms
  by (auto simp: Venta_save_def atomic_Return then_do_def Venta_super_save_def v_pk_update_same Let_def
      split: if_splits)

lemma cantidad_en_lineas_Cons:
  "cantidad_en_lineas ((j, r) # rows) pid =
     (if dvr_producto_id r = Some pid then (case dvr_cantidad r of Some q \<Rightarrow> q | None \<Rightarrow> 0) else 0)
     + cantidad_en_lineas rows pid"
  by (simp add: cantidad_en_lineas_def)

lemma venta_anular_loop_Return:
  "venta_anular_loop rows s = Return u s' \<Longrightarrow>
     ventas s' = ventas s \<and> detalles s' = detalles s \<and> movimientos s' = movimientos s
     \<and> draws s' = draws s
     \<and> (\<forall>pid. map_option precio (tbl_get (productos s') pid) = map_option precio (tbl_get (productos s) pid))
     \<and> (\<forall>pid. map_option cantidad_stock (tbl_get (productos s') pid) =
               map_option (\<lambda>p. cantidad_stock p + cantidad_en_lineas rows pid) (tbl_get (productos s) pid))"
proof (induction rows arbitrary: s)
  case Nil
  then show ?case by (simp add: cantidad_en_lineas_def option.map_ident)
next
  case (Cons jr rows)
  obtain j r where jr: "jr = (j, r)" by (cases jr)
  from Cons.prems jr obtain pid p q where
    r: "dvr_producto_id r = Some pid" "tbl_get (productos s) pid = Some p" "dvr_cantidad r = Some q"
    and rest: "venta_anular_loop rows
                 (s\<lparr>productos := AList.update pid
                       (p\<lparr>cantidad_stock := cantidad_stock p + q, p_pk := Some pid\<rparr>) (productos s)\<rparr>)
               = Return u s'"
    by (auto simp: Producto_save_def Let_def split: option.splits)
  from Cons.IH [OF rest] r jr show ?case
    by (auto simp: tbl_get_update cantidad_en_lineas_Cons)
qed

lemma venta_anular_loop_otros:
  "venta_anular_loop rows s = Return u s' \<Longrightarrow>
     \<forall>(j, r)\<in>set rows. dvr_producto_id r \<noteq> Some pid \<Longrightarrow>
     tbl_get (productos s') pid = tbl_get (productos s) pid"
proof (induction rows arbitrary: s)
  case Nil
  then show ?case by simp
next
  case (Cons jr rows)
  obtain j r where jr: "jr = (j, r)" by (cases jr)
  from Cons.prems(1) jr obtain pid0 p q where
    r: "dvr_producto_id r = Some pid0" "tbl_get (productos s) pid0 = Some p" "dvr_cantidad r = Some q"
    and rest: "venta_anular_loop rows
                 (s\<lparr>productos := AList.update pid0
                       (p\<lparr>cantidad_stock := cantidad_stock p + q, p_pk := Some pid0\<rparr>) (productos s)\<rparr>)
               = Return u s'"
    by (auto simp: Producto_save_def Let_def split: option.splits)
  from Cons.prems(2) jr r have ne: "pid \<noteq> pid0" and others: "\<forall>(j, r)\<in>set rows. dvr_producto_id r \<noteq> Some pid"
    by auto
  from Cons.IH [OF rest others] ne show ?case
    by (simp add: tbl_get_update)
qed

lemma venta_anular_loop_ok:
  "\<forall>(j, r)\<in>set rows. \<exists>pid q. dvr_producto_id r = Some pid \<and> dvr_cantidad r = Some q
       \<and> tbl_get (productos s) pid \<noteq> None
   \<Longrightarrow> \<exists>s'. venta_anular_loop rows s = Return () s'"
proof (induction rows arbitrary: s)
  case Nil
  show ?case by simp
next
  case (Cons jr rows)
  obtain j r where jr: "jr = (j, r)" by (cases jr)
  from Cons.prems jr obtain pid q p where
    r: "dvr_producto_id r = Some pid" "dvr_cantidad r = Some q" "tbl_get (productos s) pid = Some p"
    by auto
  let ?s2 = "s\<lparr>productos := AList.update pid
                       (p\<lparr>cantidad_stock := cantidad_stock p + q, p_pk := Some pid\<rparr>) (productos s)\<rparr>"
  have "\<forall>(j, r)\<in>set rows. \<exists>pid q. dvr_producto_id r = Some pid \<and> dvr_cantidad r = Some q
       \<and> tbl_get (productos ?s2) pid \<noteq> None"
  proof (clarify)
    fix a b
    assume "(a, b) \<in> set rows"
    with Cons.prems obtain pid' q' where
      "dvr_producto_id b = Some pid'" "dvr_cantidad b = Some q'" "tbl_get (productos s) pid' \<noteq> None"
      by fastforce
    then show "\<exists>pid q. dvr_producto_id b = Some pid \<and> dvr_cantidad b = Some q
       \<and> tbl_get (productos ?s2) pid \<noteq> None"
      by (simp add: tbl_get_update)
  qed
  from Cons.IH [OF this] r jr show ?case
    by (simp add: Producto_save_def Let_def)
qed






subsection \<open>The scenario, computed\<close>

lemmas scenario_defs = tienda_def martillo_def venta1_def linea1_def fila1_def salida1_def
  tienda_con_venta_def tienda_vendida_def linea1_guardada_def venta_nueva_def tienda_sorteos_def
  martillo_caro_def tienda_recotizada_def

lemmas model_defs = venta_agregar_def atomic_def then_do_def Venta_save_def
  Venta_generar_numero_comprobante_def str_nat.simps digit_char_def numero_exists_def
  Venta_super_save_def tbl_fresh_def tbl_get_def Producto_get_or_404_def DetalleVenta_create_def
  DetalleVenta_save_def DetalleVenta_super_save_def related_pk_venta_def related_pk_producto_def
  actualizar_stock_post_venta_def movimiento_exists_def MovimientoStock_create_def
  MovimientoStock_save_def MovimientoStock_super_save_def Producto_save_def
  Venta_calcular_importe_total_def aggregate_sum_def detalleventa_set_def venta_copy_fields_def
  Let_def Venta_get_or_404_def venta_anular_def productos_confirm_delete_def

text \<open>
  Posting a sale of three hammers to the empty shop leaves the line at 100.00 a piece and
  300.00 in all, the sale at 300.00, seven hammers in stock and one outbound movement.
\<close>

lemma escenario_venta_agregar:
  "venta_agregar ''POST'' True None None 7 [1] [Some 3] tienda =
     Return (Redirect ''venta_lista'') tienda_vendida"
  by (simp add: model_defs scenario_defs)

lemma escenario_linea1:
  "DetalleVenta_save linea1 tienda_con_venta =
     Return linea1_guardada tienda_vendida"
  by (simp add: model_defs scenario_defs)

text \<open>
  The price of the hammer is then raised to 150.00 and the product saved; the line, read
  back with the product as it now is and saved again, stays at 100.00 a piece and the
  sale at 300.00.
\<close>

lemma escenario_precio_cambiado:
  "Producto_save martillo_caro tienda_vendida = (martillo_caro, tienda_recotizada)"
  by (simp add: model_defs scenario_defs)

lemma escenario_linea1_otra_vez:
  "DetalleVenta_save (linea1_guardada\<lparr>dv_producto := Some martillo_caro\<rparr>) tienda_recotizada =
     Return (linea1_guardada\<lparr>dv_producto := Some martillo_caro\<rparr>) tienda_recotizada"
  by (simp add: model_defs scenario_defs)

text \<open>Voiding the sale of the scenario: ten hammers again, the sale marked void.\<close>

lemma escenario_venta_anular:
  "venta_anular ''POST'' 1 tienda_vendida =
     Return (Redirect ''venta_lista'')
       (tienda_vendida\<lparr>ventas := [(1, venta1\<lparr>importe_total := 30000, anulada := True\<rparr>)],
                       productos := [(1, martillo)]\<rparr>)"
  by (simp add: model_defs scenario_defs)

subsection \<open>The stock ledger\<close>



subsection \<open>Sale lines\<close>

text \<open>
  C1. A sale line saved for the first time (it has no key yet) with a product takes that
  product's price as its unit price, on the instance and in the stored row; a line that
  already has a key keeps the unit price it carries, whatever the price of its product
  is by then; and saving a product writes no sale line.
\<close>

theorem DetalleVenta_save_congela_precio:
  "(DetalleVenta_save l s = Return l' s' \<longrightarrow> dv_pk l = None \<longrightarrow> dv_producto l = Some p \<longrightarrow>
      precio_unitario l' = precio p
      \<and> (\<exists>k. dv_pk l' = Some k
            \<and> map_option dvr_precio_unitario (tbl_get (detalles s') k) = Some (precio p)))
   \<and> (DetalleVenta_save l s = Return l' s' \<longrightarrow> dv_pk l = Some k \<longrightarrow>
      dv_pk l' = Some k \<and> precio_unitario l' = precio_unitario l
      \<and> map_option dvr_precio_unitario (tbl_get (detalles s') k) = Some (precio_unitario l))
   \<and> detalles (snd (Producto_save p s)) = detalles s"
proof (intro conjI impI)
  assume r: "DetalleVenta_save l s = Return l' s'" and "dv_pk l = None" "dv_producto l = Some p"
  with DetalleVenta_save_Return [OF r] show "precio_unitario l' = precio p"
    by simp
  from DetalleVenta_save_Return [OF r] \<open>dv_pk l = None\<close> \<open>dv_producto l = Some p\<close>
  show "\<exists>k. dv_pk l' = Some k
            \<and> map_option dvr_precio_unitario (tbl_get (detalles s') k) = Some (precio p)"
    by (simp add: tbl_get_update)
next
  assume r: "DetalleVenta_save l s = Return l' s'" and k: "dv_pk l = Some k"
  from DetalleVenta_save_Return [OF r] k show "dv_pk l' = Some k" by simp
  from DetalleVenta_save_Return [OF r] k show "precio_unitario l' = precio_unitario l"
    by (simp split: option.splits)
  from DetalleVenta_save_Return [OF r] k
  show "map_option dvr_precio_unitario (tbl_get (detalles s') k) = Some (precio_unitario l)"
    by (simp add: tbl_get_update split: option.splits)
next
  show "detalles (snd (Producto_save p s)) = detalles s"
    by (simp add: Producto_save_def Let_def)
qed

theorem DetalleVenta_save_congela_precio_witness:
  "DetalleVenta_save linea1 tienda_con_venta = Return linea1_guardada tienda_vendida
   \<and> dv_pk linea1 = None \<and> dv_producto linea1 = Some martillo \<and> precio martillo = 10000
   \<and> precio_unitario linea1_guardada = 10000
   \<and> map_option dvr_precio_unitario (tbl_get (detalles tienda_vendida) 1) = Some 10000
   \<and> Producto_save martillo_caro tienda_vendida = (martillo_caro, tienda_recotizada)
   \<and> precio martillo_caro = 15000
   \<and> DetalleVenta_save (linea1_guardada\<lparr>dv_producto := Some martillo_caro\<rparr>) tienda_recotizada =
       Return (linea1_guardada\<lparr>dv_producto := Some martillo_caro\<rparr>) tienda_recotizada
   \<and> dv_pk (linea1_guardada\<lparr>dv_producto := Some martillo_caro\<rparr>) = Some 1
   \<and> map_option dvr_precio_unitario (tbl_get (detalles tienda_recotizada) 1) = Some 10000"
proof -
  have a: "dv_pk linea1 = None" "dv_producto linea1 = Some martillo" "precio martillo = 10000"
    by (simp_all add: linea1_def martillo_def)
  have b: "dv_pk (linea1_guardada\<lparr>dv_producto := Some martillo_caro\<rparr>) = Some 1"
    "precio_unitario (linea1_guardada\<lparr>dv_producto := Some martillo_caro\<rparr>) = 10000"
    "precio martillo_caro = 15000"
    by (simp_all add: linea1_guardada_def martillo_caro_def)
  from DetalleVenta_save_congela_precio [of linea1 tienda_con_venta linea1_guardada tienda_vendida
      martillo 1] escenario_linea1 a
  have first: "precio_unitario linea1_guardada = 10000
      \<and> map_option dvr_precio_unitario (tbl_get (detalles tienda_vendida) 1) = Some 10000"
    by (auto simp add: linea1_guardada_def)
  from DetalleVenta_save_congela_precio [of "linea1_guardada\<lparr>dv_producto := Some martillo_caro\<rparr>"
      tienda_recotizada "linea1_guardada\<lparr>dv_producto := Some martillo_caro\<rparr>" tienda_recotizada
      martillo_caro 1] escenario_linea1_otra_vez b
  have again: "map_option dvr_precio_unitario (tbl_get (detalles tienda_recotizada) 1) = Some 10000"
    by simp
  from first again a b escenario_linea1 escenario_linea1_otra_vez escenario_precio_cambiado
  show ?thesis by simp
qed

text \<open>
  C6. The subtotal is left alone when the quantity is 0, although a quantity is present:
  the stored line of the scenario, its quantity changed to 0 and saved again, keeps the
  subtotal of 300.00, and so does the sale.
\<close>

theorem DetalleVenta_save_cantidad_cero:
  "DetalleVenta_save (linea1_guardada\<lparr>dv_cantidad := Some 0\<rparr>) tienda_vendida =
     Return (linea1_guardada\<lparr>dv_cantidad := Some 0\<rparr>)
            (tienda_vendida\<lparr>detalles := [(1, fila1\<lparr>dvr_cantidad := Some 0\<rparr>)]\<rparr>)
   \<and> importe (linea1_guardada\<lparr>dv_cantidad := Some 0\<rparr>) = 30000
   \<and> dvr_importe (fila1\<lparr>dvr_cantidad := Some 0\<rparr>) = 30000
   \<and> 0 * precio_unitario linea1_guardada = 0"
  by (simp add: model_defs scenario_defs)

subsection \<open>The total of a sale\<close>

text \<open>
  C2. Recomputing the total of a stored sale writes the sum of the subtotals
  of its current lines, 0 when it has none, into the total column of its row and changes
  nothing else; and after a sale line has been saved, be it new or not, the stored total
  of the sale it names is that sum.
\<close>

theorem Venta_calcular_importe_total_suma:
  "(v_pk v = Some k \<longrightarrow> tbl_get (ventas s) k = Some row \<longrightarrow> numero_comprobante v \<noteq> [] \<longrightarrow>
      Venta_calcular_importe_total v s =
        Return (v\<lparr>importe_total := suma_importes k s\<rparr>)
               (s\<lparr>ventas := AList.update k (row\<lparr>importe_total := suma_importes k s\<rparr>) (ventas s)\<rparr>))
   \<and> (detalleventa_set k s = [] \<longrightarrow> suma_importes k s = 0)
   \<and> (DetalleVenta_save l s = Return l' s' \<longrightarrow> dv_venta l = Some v \<longrightarrow> v_pk v = Some k \<longrightarrow>
        map_option importe_total (tbl_get (ventas s') k) = Some (suma_importes k s'))"
proof (intro conjI impI)
  assume "v_pk v = Some k" "tbl_get (ventas s) k = Some row" "numero_comprobante v \<noteq> []"
  then show "Venta_calcular_importe_total v s =
        Return (v\<lparr>importe_total := suma_importes k s\<rparr>)
               (s\<lparr>ventas := AList.update k (row\<lparr>importe_total := suma_importes k s\<rparr>) (ventas s)\<rparr>)"
    by (rule Venta_calcular_importe_total_ok)
next
  assume "detalleventa_set k s = []"
  then show "suma_importes k s = 0" by (simp add: suma_importes_def)
next
  assume r: "DetalleVenta_save l s = Return l' s'" and v: "dv_venta l = Some v" "v_pk v = Some k"
  from DetalleVenta_save_Return [OF r] v
  show "map_option importe_total (tbl_get (ventas s') k) = Some (suma_importes k s')"
    by (auto simp: tbl_get_update)
qed

theorem Venta_calcular_importe_total_suma_witness:
  "DetalleVenta_save linea1 tienda_con_venta = Return linea1_guardada tienda_vendida
   \<and> dv_venta linea1 = Some venta1 \<and> v_pk venta1 = Some 1
   \<and> map_option importe_total (tbl_get (ventas tienda_vendida) 1) = Some (suma_importes 1 tienda_vendida)
   \<and> suma_importes 1 tienda_vendida = 30000"
proof -
  have a: "dv_venta linea1 = Some venta1" by (simp add: linea1_def)
  have b: "v_pk venta1 = Some 1" by (simp add: venta1_def)
  have c: "suma_importes 1 tienda_vendida = 30000"
    by (simp add: suma_importes_def detalleventa_set_def tienda_vendida_def fila1_def)
  from Venta_calcular_importe_total_suma [of venta1 1 tienda_con_venta venta1 linea1
      linea1_guardada tienda_vendida] escenario_linea1 a b c
  show ?thesis by simp
qed

text \<open>
  C2 fails where a line is removed: deleting the hammer of the scenario deletes the line
  that sold it, and the sale keeps the total of 300.00 over no lines.
\<close>

theorem total_tras_eliminar_counterexample:
  "map_option importe_total (tbl_get (ventas tienda_vendida) 1) = Some (suma_importes 1 tienda_vendida)
   \<and> productos_confirm_delete ''POST'' 1 tienda_vendida =
       Return (Redirect ''productos_list'')
         (tienda_vendida\<lparr>productos := [], detalles := [], movimientos := []\<rparr>)
   \<and> map_option importe_total
        (tbl_get (ventas (tienda_vendida\<lparr>productos := [], detalles := [], movimientos := []\<rparr>)) 1)
       = Some 30000
   \<and> suma_importes 1 (tienda_vendida\<lparr>productos := [], detalles := [], movimientos := []\<rparr>) = 0"
  by (simp add: productos_confirm_delete_def Producto_get_or_404_def then_do_def tbl_get_def
      suma_importes_def detalleventa_set_def AList.delete_eq scenario_defs)

subsection \<open>The post-sale stock effect\<close>






subsection \<open>Voiding a sale\<close>

text \<open>
  C4. Posting the void of a stored sale that carries a receipt number no other sale has (the
  column is unique), and whose lines each name a stored product and a quantity, returns
  with the sale's void flag set in its row, every product's on-hand quantity raised by the
  quantities of the sale's lines for it, and the sale and the lines still stored.
\<close>

theorem venta_anular_repone_stock:
  assumes "tbl_get (ventas s) pk = Some v" and "numero_comprobante v \<noteq> []"
    and "\<not> list_ex (\<lambda>(j, r). j \<noteq> pk \<and> numero_comprobante r = numero_comprobante v) (ventas s)"
    and "\<forall>(j, r)\<in>set (detalleventa_set pk s).
           \<exists>pid q. dvr_producto_id r = Some pid \<and> dvr_cantidad r = Some q
             \<and> tbl_get (productos s) pid \<noteq> None"
  shows "\<exists>s'. venta_anular ''POST'' pk s = Return (Redirect ''venta_lista'') s'
           \<and> map_option anulada (tbl_get (ventas s') pk) = Some True
           \<and> (\<forall>pid. map_option cantidad_stock (tbl_get (productos s') pid) =
                  map_option (\<lambda>p. cantidad_stock p + cantidad_en_lineas (detalleventa_set pk s) pid)
                    (tbl_get (productos s) pid))
           \<and> detalles s' = detalles s
           \<and> fst ` set (ventas s') = fst ` set (ventas s)"
proof -
  let ?v1 = "v\<lparr>v_pk := Some pk, anulada := True\<rparr>"
  let ?s1 = "s\<lparr>ventas := AList.update pk ?v1 (ventas s)\<rparr>"
  have sv: "Venta_save ?v1 None s = Return ?v1 ?s1"
    using assms(2,3) by (intro Venta_save_full_ok) simp_all
  have set1: "detalleventa_set pk ?s1 = detalleventa_set pk s"
    by (simp add: detalleventa_set_def)
  from venta_anular_loop_ok [of "detalleventa_set pk s" ?s1] assms(4)
  obtain s' where loop: "venta_anular_loop (detalleventa_set pk s) ?s1 = Return () s'"
    by auto
  have run: "venta_anular ''POST'' pk s = Return (Redirect ''venta_lista'') s'"
    using assms(1) sv loop set1
    by (simp add: venta_anular_def Venta_get_or_404_def then_do_def)
  have keys: "fst ` set (ventas ?s1) = fst ` set (ventas s)"
    using assms(1) by (auto simp: dom_update tbl_get_def dest: map_of_SomeD intro: rev_image_eqI)
  from venta_anular_loop_Return [OF loop] run keys show ?thesis
    by (auto simp: tbl_get_update)
qed

theorem venta_anular_repone_stock_witness:
  "tbl_get (ventas tienda_vendida) 1 = Some (venta1\<lparr>importe_total := 30000\<rparr>)
   \<and> cantidad_en_lineas (detalleventa_set 1 tienda_vendida) 1 = 3
   \<and> (\<exists>s'. venta_anular ''POST'' 1 tienda_vendida = Return (Redirect ''venta_lista'') s'
          \<and> map_option anulada (tbl_get (ventas s') 1) = Some True
          \<and> map_option cantidad_stock (tbl_get (productos s') 1) = Some 10
          \<and> detalles s' = [(1, fila1)])"
proof -
  have a: "tbl_get (ventas tienda_vendida) 1 = Some (venta1\<lparr>importe_total := 30000\<rparr>)"
    by (simp add: tbl_get_def scenario_defs)
  have b: "numero_comprobante (venta1\<lparr>importe_total := 30000\<rparr>) \<noteq> []"
    by (simp add: venta1_def)
  have c: "\<not> list_ex (\<lambda>(j, r). j \<noteq> 1 \<and> numero_comprobante r
              = numero_comprobante (venta1\<lparr>importe_total := 30000\<rparr>)) (ventas tienda_vendida)"
    by (simp add: scenario_defs)
  have d: "\<forall>(j, r)\<in>set (detalleventa_set 1 tienda_vendida).
           \<exists>pid q. dvr_producto_id r = Some pid \<and> dvr_cantidad r = Some q
             \<and> tbl_get (productos tienda_vendida) pid \<noteq> None"
    by (simp add: detalleventa_set_def tbl_get_def scenario_defs)
  have e: "cantidad_en_lineas (detalleventa_set 1 tienda_vendida) 1 = 3"
    by (simp add: cantidad_en_lineas_def detalleventa_set_def scenario_defs)
  have f: "tbl_get (productos tienda_vendida) 1 = Some (martillo\<lparr>cantidad_stock := 7\<rparr>)"
    by (simp add: tbl_get_def scenario_defs)
  have g: "detalles tienda_vendida = [(1, fila1)]"
    by (simp add: tienda_vendida_def)
  from venta_anular_repone_stock [OF a b c d] obtain s' where
    s': "venta_anular ''POST'' 1 tienda_vendida = Return (Redirect ''venta_lista'') s'"
      "map_option anulada (tbl_get (ventas s') 1) = Some True"
      "\<forall>pid. map_option cantidad_stock (tbl_get (productos s') pid) =
                  map_option (\<lambda>p. cantidad_stock p + cantidad_en_lineas (detalleventa_set 1 tienda_vendida) pid)
                    (tbl_get (productos tienda_vendida) pid)"
      "detalles s' = detalles tienda_vendida"
    by blast
  from s'(3) have "map_option cantidad_stock (tbl_get (productos s') 1) =
      map_option (\<lambda>p. cantidad_stock p + cantidad_en_lineas (detalleventa_set 1 tienda_vendida) 1)
        (tbl_get (productos tienda_vendida) 1)"
    by (rule spec)
  with e f have st: "map_option cantidad_stock (tbl_get (productos s') 1) = Some 10"
    by (simp add: martillo_def)
  have "venta_anular ''POST'' 1 tienda_vendida = Return (Redirect ''venta_lista'') s'
          \<and> map_option anulada (tbl_get (ventas s') 1) = Some True
          \<and> map_option cantidad_stock (tbl_get (productos s') 1) = Some 10
          \<and> detalles s' = [(1, fila1)]"
    using s'(1,2,4) st g by simp
  then have "\<exists>s'. venta_anular ''POST'' 1 tienda_vendida = Return (Redirect ''venta_lista'') s'
          \<and> map_option anulada (tbl_get (ventas s') 1) = Some True
          \<and> map_option cantidad_stock (tbl_get (productos s') 1) = Some 10
          \<and> detalles s' = [(1, fila1)]" ..
  with a e show ?thesis by simp
qed

text \<open>
  C9. A void that returns leaves the sale's row as it was in every column but the void
  flag (total, receipt number, date, client and payment method), leaves every other sale,
  every sale line and every stock movement as stored, changes no product's price, and
  leaves the products that no line of the sale names as they were.  The stored sale is
  taken to have a receipt number, as every sale written by \<^verbatim>\<open>Venta.save\<close> has.
\<close>

theorem venta_anular_marco:
  assumes "venta_anular method pk s = Return resp s'"
    and "tbl_get (ventas s) pk = Some v" and "numero_comprobante v \<noteq> []"
  shows "(\<exists>v'. tbl_get (ventas s') pk = Some v'
            \<and> importe_total v' = importe_total v \<and> numero_comprobante v' = numero_comprobante v
            \<and> fecha v' = fecha v \<and> cliente v' = cliente v \<and> medio_de_pago v' = medio_de_pago v)
       \<and> (\<forall>j. j \<noteq> pk \<longrightarrow> tbl_get (ventas s') j = tbl_get (ventas s) j)
       \<and> detalles s' = detalles s \<and> movimientos s' = movimientos s
       \<and> (\<forall>pid. map_option precio (tbl_get (productos s') pid)
                 = map_option precio (tbl_get (productos s) pid))
       \<and> (\<forall>pid. (\<forall>(j, r)\<in>set (detalleventa_set pk s). dvr_producto_id r \<noteq> Some pid) \<longrightarrow>
                 tbl_get (productos s') pid = tbl_get (productos s) pid)"
proof (cases "method = ''POST''")
  case False
  with assms show ?thesis
    by (simp add: venta_anular_def Venta_get_or_404_def then_do_def)
next
  case True
  let ?v1 = "v\<lparr>v_pk := Some pk, anulada := True\<rparr>"
  from assms(1,2) True obtain vg s1 u where
    sv: "Venta_save ?v1 None s = Return vg s1"
    and loop: "venta_anular_loop (detalleventa_set pk s1) s1 = Return u s'"
    by (auto simp: venta_anular_def Venta_get_or_404_def then_do_Return)
  from Venta_save_full_Return [OF sv, of pk] assms(3)
  have s1: "s1 = s\<lparr>ventas := AList.update pk ?v1 (ventas s)\<rparr>" by simp
  then have set1: "detalleventa_set pk s1 = detalleventa_set pk s" "productos s1 = productos s"
    by (simp_all add: detalleventa_set_def)
  have otros: "\<forall>pid. (\<forall>(j, r)\<in>set (detalleventa_set pk s). dvr_producto_id r \<noteq> Some pid) \<longrightarrow>
                 tbl_get (productos s') pid = tbl_get (productos s) pid"
    using venta_anular_loop_otros [OF loop] set1 by simp
  from venta_anular_loop_Return [OF loop] s1 otros show ?thesis
    by (auto simp: tbl_get_update)
qed

theorem venta_anular_marco_witness:
  "venta_anular ''POST'' 1 tienda_vendida =
     Return (Redirect ''venta_lista'')
       (tienda_vendida\<lparr>ventas := [(1, venta1\<lparr>importe_total := 30000, anulada := True\<rparr>)],
                       productos := [(1, martillo)]\<rparr>)
   \<and> tbl_get (ventas tienda_vendida) 1 = Some (venta1\<lparr>importe_total := 30000\<rparr>)
   \<and> detalles (tienda_vendida\<lparr>ventas := [(1, venta1\<lparr>importe_total := 30000, anulada := True\<rparr>)],
                              productos := [(1, martillo)]\<rparr>) = detalles tienda_vendida
   \<and> movimientos (tienda_vendida\<lparr>ventas := [(1, venta1\<lparr>importe_total := 30000, anulada := True\<rparr>)],
                              productos := [(1, martillo)]\<rparr>) = movimientos tienda_vendida"
proof -
  have a: "tbl_get (ventas tienda_vendida) 1 = Some (venta1\<lparr>importe_total := 30000\<rparr>)"
    by (simp add: tbl_get_def scenario_defs)
  have b: "numero_comprobante (venta1\<lparr>importe_total := 30000\<rparr>) \<noteq> []"
    by (simp add: venta1_def)
  from venta_anular_marco [OF escenario_venta_anular a b] escenario_venta_anular a
  show ?thesis by blast
qed

subsection \<open>Receipt numbers\<close>



subsection \<open>The quantity check and the sale view\<close>

text \<open>
  C8. The view that creates sale lines does not run the form's quantity check: the form
  rejects a quantity of 0, yet posting a sale of 0 hammers is answered with the redirect
  and leaves the line and a stock movement of 0 stored.
\<close>

theorem venta_agregar_cantidad_cero:
  "clean_cantidad (Some 0) = Inl ValidationError
   \<and> venta_agregar ''POST'' True None None 7 [1] [Some 0] tienda =
       Return (Redirect ''venta_lista'')
         (tienda_con_venta\<lparr>detalles := [(1, fila1\<lparr>dvr_cantidad := Some 0, dvr_importe := 0\<rparr>)],
                           movimientos := [(1, salida1\<lparr>msr_cantidad := 0\<rparr>)]\<rparr>)"
  by (simp add: clean_cantidad_def model_defs scenario_defs)

end
